theory Spec2Isabelle
  imports Main
begin

section \<open>Errors (errors.go)\<close>

text \<open>
  The package's sentinel errors, the two context errors an \<open>Await\<close> can return, the
  errors of user code (\<open>fmt.Errorf\<close>), and the aggregate error. A Go value of interface
  type \<open>error\<close> may be \<open>nil\<close>: it is an \<open>error option\<close>, \<open>None\<close> for \<open>nil\<close>.
\<close>

datatype error =
    ErrTaskPanicked
  | ErrPoolClosed
  | ErrAllPromisesRejected
  | Canceled
  | DeadlineExceeded
  | Errorf string
  | AggregateErr AggregateError
and AggregateError = AggregateError (errors: "error list")


definition Errors :: "AggregateError \<Rightarrow> error list" where
  "Errors ae = errors ae"


section \<open>Go channels\<close>

text \<open>
  A channel is its buffer, its capacity and whether it has been closed. An operation on
  it proceeds, blocks, or panics; the same three outcomes describe a goroutine, where a
  panic that nothing recovers ends the process.
\<close>

record 'm chan =
  chan_buf :: "'m list"
  chan_cap :: nat
  chan_closed :: bool

datatype 'x outcome = Proceeds 'x | Blocks | Panics

definition make_chan :: "nat \<Rightarrow> 'm chan" where
  "make_chan n = \<lparr>chan_buf = [], chan_cap = n, chan_closed = False\<rparr>"

text \<open>\<open>c <- m\<close>: a send on a closed channel panics; a full buffer blocks.\<close>

definition send :: "'m chan \<Rightarrow> 'm \<Rightarrow> 'm chan outcome" where
  "send c m =
     (if chan_closed c then Panics
      else if length (chan_buf c) < chan_cap c then Proceeds (c\<lparr>chan_buf := chan_buf c @ [m]\<rparr>)
      else Blocks)"

text \<open>
  \<open>m, ok := <-c\<close>: the oldest buffered message; on an empty closed channel the receive
  proceeds with \<open>ok = false\<close> (\<open>None\<close>); on an empty open channel it blocks.
\<close>

definition recv :: "'m chan \<Rightarrow> ('m option \<times> 'm chan) outcome" where
  "recv c =
     (case chan_buf c of
        m # ms \<Rightarrow> Proceeds (Some m, c\<lparr>chan_buf := ms\<rparr>)
      | [] \<Rightarrow> if chan_closed c then Proceeds (None, c) else Blocks)"

text \<open>\<open>close(c)\<close>: closing a closed channel panics.\<close>

definition close_chan :: "'m chan \<Rightarrow> 'm chan outcome" where
  "close_chan c = (if chan_closed c then Panics else Proceeds (c\<lparr>chan_closed := True\<rparr>))"

section \<open>Promise (combinators.go, second part)\<close>

record 'a Result =
  Value :: 'a
  Err :: "error option"

text \<open>\<open>once\<close> is the state of the \<open>sync.Once\<close>: whether \<open>Do\<close> has already run.\<close>

record 'a Promise =
  resultChan :: "'a Result chan"
  once :: bool

text \<open>The literal \<open>&Promise[T]{resultChan: make(chan Result[T], 1)}\<close>.\<close>

definition new_Promise :: "'a Promise" where
  "new_Promise = \<lparr>resultChan = make_chan 1, once = False\<rparr>"

text \<open>
  What a call of a user-supplied function does: it returns, or it panics.
\<close>

datatype 'r call = Returns 'r | Panicked

text \<open>
  The goroutine of \<open>NewPromise\<close>: \<open>val, err := fn(); p.resultChan <- Result{val, err}\<close>.
  There is no \<open>recover\<close>: a panic of \<open>fn\<close> leaves the goroutine.
\<close>

definition NewPromise :: "('a \<times> error option) call \<Rightarrow> 'a Promise outcome" where
  "NewPromise fn =
     (case fn of
        Panicked \<Rightarrow> Panics
      | Returns (val, err) \<Rightarrow>
          (case send (resultChan new_Promise) \<lparr>Value = val, Err = err\<rparr> of
             Proceeds c \<Rightarrow> Proceeds (new_Promise\<lparr>resultChan := c\<rparr>)
           | Blocks \<Rightarrow> Blocks
           | Panics \<Rightarrow> Panics))"

text \<open>
  The two closures of \<open>NewPromiseWithExecutor\<close>. \<open>p.once.Do(f)\<close> runs \<open>f\<close> only on the
  first call. \<open>zero\<close> is the zero value of the type parameter \<open>T\<close>, which
  \<open>Result[T]{Err: err}\<close> leaves in \<open>Value\<close>.
\<close>

definition resolve :: "'a \<Rightarrow> 'a Promise \<Rightarrow> 'a Promise outcome" where
  "resolve val p =
     (if once p then Proceeds p
      else (case send (resultChan p) \<lparr>Value = val, Err = None\<rparr> of
              Proceeds c \<Rightarrow> Proceeds (p\<lparr>resultChan := c, once := True\<rparr>)
            | Blocks \<Rightarrow> Blocks
            | Panics \<Rightarrow> Panics))"

definition reject :: "'a \<Rightarrow> error option \<Rightarrow> 'a Promise \<Rightarrow> 'a Promise outcome" where
  "reject zero err p =
     (if once p then Proceeds p
      else (case send (resultChan p) \<lparr>Value = zero, Err = err\<rparr> of
              Proceeds c \<Rightarrow> Proceeds (p\<lparr>resultChan := c, once := True\<rparr>)
            | Blocks \<Rightarrow> Blocks
            | Panics \<Rightarrow> Panics))"

text \<open>
  An executor is described by what it does with its two callbacks: the calls it makes (by
  itself or from goroutines it starts), in the order in which they reach \<open>p.once\<close>, and
  whether a panic then leaves one of its goroutines. \<open>Calls cs\<close> is an executor that
  makes the calls \<open>cs\<close> and no other (it returns, or stays blocked after them).
\<close>

datatype 'a cb = Resolve 'a | Reject "error option"

datatype 'a executor = Calls "'a cb list" | PanicAfter "'a cb list"

fun callback :: "'a \<Rightarrow> 'a cb \<Rightarrow> 'a Promise \<Rightarrow> 'a Promise outcome" where
  "callback zero (Resolve val) p = resolve val p"
| "callback zero (Reject err) p = reject zero err p"

fun callbacks :: "'a \<Rightarrow> 'a cb list \<Rightarrow> 'a Promise \<Rightarrow> 'a Promise outcome" where
  "callbacks zero [] p = Proceeds p"
| "callbacks zero (c # cs) p =
     (case callback zero c p of
        Proceeds p' \<Rightarrow> callbacks zero cs p'
      | Blocks \<Rightarrow> Blocks
      | Panics \<Rightarrow> Panics)"

text \<open>
  \<open>NewPromiseWithExecutor\<close>: the promise it returns, in the state in which the executor's
  goroutine leaves it. The goroutine has no \<open>recover\<close>.
\<close>

fun NewPromiseWithExecutor :: "'a \<Rightarrow> 'a executor \<Rightarrow> 'a Promise outcome" where
  "NewPromiseWithExecutor zero (Calls cs) = callbacks zero cs new_Promise"
| "NewPromiseWithExecutor zero (PanicAfter cs) =
     (case callbacks zero cs new_Promise of
        Proceeds p \<Rightarrow> Panics
      | Blocks \<Rightarrow> Blocks
      | Panics \<Rightarrow> Panics)"

text \<open>The \<open>Result\<close> a callback sends when it is the first.\<close>

fun settlement :: "'a \<Rightarrow> 'a cb \<Rightarrow> 'a Result" where
  "settlement zero (Resolve val) = \<lparr>Value = val, Err = None\<rparr>"
| "settlement zero (Reject err) = \<lparr>Value = zero, Err = err\<rparr>"

text \<open>A promise whose channel holds exactly the result \<open>r\<close>, its \<open>once\<close> used.\<close>

definition settled :: "'a Result \<Rightarrow> 'a Promise" where
  "settled r = \<lparr>resultChan = \<lparr>chan_buf = [r], chan_cap = 1, chan_closed = False\<rparr>, once = True\<rparr>"

subsection \<open>select and Await\<close>

text \<open>
  A \<open>select\<close> with two cases takes a case that can proceed; when both can, Go picks one
  of them pseudo-randomly: \<open>pick\<close> is that choice, \<open>FirstCase\<close> for the case written
  first in the source. A receive can proceed on a non-empty or closed channel; a send can
  proceed on a closed channel (it panics) or where the buffer has room.
\<close>

datatype pick = FirstCase | SecondCase

definition select2 :: "pick \<Rightarrow> bool \<Rightarrow> bool \<Rightarrow> pick option" where
  "select2 pk ready1 ready2 =
     (if ready1 \<and> ready2 then Some pk
      else if ready1 then Some FirstCase
      else if ready2 then Some SecondCase
      else None)"

definition can_recv :: "'m chan \<Rightarrow> bool" where
  "can_recv c = (chan_buf c \<noteq> [] \<or> chan_closed c)"

definition can_send :: "'m chan \<Rightarrow> bool" where
  "can_send c = (chan_closed c \<or> length (chan_buf c) < chan_cap c)"

text \<open>
  A \<open>context.Context\<close> is the value of its \<open>Err()\<close>: \<open>None\<close> while \<open>Done()\<close> is open,
  the cancellation error once it has fired. \<open>context.Background()\<close> never fires.
\<close>

type_synonym ctx = "error option"

definition Background :: ctx where
  "Background = None"

text \<open>
  \<open>Await\<close>: \<open>None\<close> when neither case can proceed (the caller stays blocked); otherwise
  the pair it returns and the promise as the receive leaves it.
\<close>

definition Await :: "'a \<Rightarrow> pick \<Rightarrow> ctx \<Rightarrow> 'a Promise \<Rightarrow> (('a \<times> error option) \<times> 'a Promise) option" where
  "Await zero pk ctx p =
     (case select2 pk (can_recv (resultChan p)) (ctx \<noteq> None) of
        None \<Rightarrow> None
      | Some FirstCase \<Rightarrow>
          (case recv (resultChan p) of
             Proceeds (Some result, c) \<Rightarrow> Some ((Value result, Err result), p\<lparr>resultChan := c\<rparr>)
           | Proceeds (None, c) \<Rightarrow> Some ((zero, None), p\<lparr>resultChan := c\<rparr>)
           | Blocks \<Rightarrow> None
           | Panics \<Rightarrow> None)
      | Some SecondCase \<Rightarrow> Some ((zero, ctx), p))"

subsection \<open>Then, Map, Catch, Finally\<close>

text \<open>
  Each starts a goroutine that awaits the source \<open>p\<close> with \<open>context.Background()\<close> and
  then calls one callback of the new promise. The functions return the executor of the new
  promise and the source as the goroutine leaves it.
\<close>

definition Then_executor :: "'a \<Rightarrow> pick \<Rightarrow> ('a \<Rightarrow> error option call) \<Rightarrow> 'a Promise \<Rightarrow> 'a executor \<times> 'a Promise" where
  "Then_executor zero pk fn p =
     (case Await zero pk Background p of
        None \<Rightarrow> (Calls [], p)
      | Some ((val, err), p') \<Rightarrow>
          (if err \<noteq> None then (Calls [Reject err], p')
           else (case fn val of
                   Panicked \<Rightarrow> (PanicAfter [], p')
                 | Returns err' \<Rightarrow>
                     if err' \<noteq> None then (Calls [Reject err'], p')
                     else (Calls [Resolve val], p'))))"

definition Map_executor :: "'a \<Rightarrow> pick \<Rightarrow> ('a \<Rightarrow> ('a \<times> error option) call) \<Rightarrow> 'a Promise \<Rightarrow> 'a executor \<times> 'a Promise" where
  "Map_executor zero pk fn p =
     (case Await zero pk Background p of
        None \<Rightarrow> (Calls [], p)
      | Some ((val, err), p') \<Rightarrow>
          (if err \<noteq> None then (Calls [Reject err], p')
           else (case fn val of
                   Panicked \<Rightarrow> (PanicAfter [], p')
                 | Returns (newVal, err') \<Rightarrow>
                     if err' \<noteq> None then (Calls [Reject err'], p')
                     else (Calls [Resolve newVal], p'))))"

definition Catch_executor :: "'a \<Rightarrow> pick \<Rightarrow> (error \<Rightarrow> ('a \<times> error option) call) \<Rightarrow> 'a Promise \<Rightarrow> 'a executor \<times> 'a Promise" where
  "Catch_executor zero pk fn p =
     (case Await zero pk Background p of
        None \<Rightarrow> (Calls [], p)
      | Some ((val, err), p') \<Rightarrow>
          (case err of
             None \<Rightarrow> (Calls [Resolve val], p')
           | Some e \<Rightarrow>
               (case fn e of
                  Panicked \<Rightarrow> (PanicAfter [], p')
                | Returns (newVal, err') \<Rightarrow>
                    if err' \<noteq> None then (Calls [Reject err'], p')
                    else (Calls [Resolve newVal], p'))))"

definition Finally_executor :: "'a \<Rightarrow> pick \<Rightarrow> unit call \<Rightarrow> 'a Promise \<Rightarrow> 'a executor \<times> 'a Promise" where
  "Finally_executor zero pk fn p =
     (case Await zero pk Background p of
        None \<Rightarrow> (Calls [], p)
      | Some ((val, err), p') \<Rightarrow>
          (case fn of
             Panicked \<Rightarrow> (PanicAfter [], p')
           | Returns u \<Rightarrow>
               if err \<noteq> None then (Calls [Reject err], p')
               else (Calls [Resolve val], p')))"

text \<open>The new promise, and the source afterwards.\<close>

definition chain :: "'a \<Rightarrow> 'a executor \<times> 'a Promise \<Rightarrow> 'a Promise outcome \<times> 'a Promise" where
  "chain zero ep = (NewPromiseWithExecutor zero (fst ep), snd ep)"

definition Then :: "'a \<Rightarrow> pick \<Rightarrow> ('a \<Rightarrow> error option call) \<Rightarrow> 'a Promise \<Rightarrow> 'a Promise outcome \<times> 'a Promise" where
  "Then zero pk fn p = chain zero (Then_executor zero pk fn p)"

definition Map :: "'a \<Rightarrow> pick \<Rightarrow> ('a \<Rightarrow> ('a \<times> error option) call) \<Rightarrow> 'a Promise \<Rightarrow> 'a Promise outcome \<times> 'a Promise" where
  "Map zero pk fn p = chain zero (Map_executor zero pk fn p)"

definition Catch :: "'a \<Rightarrow> pick \<Rightarrow> (error \<Rightarrow> ('a \<times> error option) call) \<Rightarrow> 'a Promise \<Rightarrow> 'a Promise outcome \<times> 'a Promise" where
  "Catch zero pk fn p = chain zero (Catch_executor zero pk fn p)"

definition Finally :: "'a \<Rightarrow> pick \<Rightarrow> unit call \<Rightarrow> 'a Promise \<Rightarrow> 'a Promise outcome \<times> 'a Promise" where
  "Finally zero pk fn p = chain zero (Finally_executor zero pk fn p)"

section \<open>Combinators (combinators.go, first part)\<close>

text \<open>
  The inputs of a combinator are pointers (\<open>*Promise[T]\<close>): a list of addresses into a
  heap of promises, so that a promise passed twice is one object with one channel, and an
  \<open>Await\<close> on it takes its settlement away from every other reader. Nobody but the
  combinator awaits the inputs while it runs. \<open>picks i\<close> is the choice of the \<open>select\<close> of
  the \<open>Await\<close> on input \<open>i\<close>.
\<close>

type_synonym 'a heap = "nat \<Rightarrow> 'a Promise"



subsection \<open>Sequence\<close>





subsection \<open>The goroutines of All, AllSettled and Any\<close>

text \<open>
  These combinators start one goroutine per input: it awaits the input at address \<open>p\<close>
  and then runs its \<open>body\<close> on the pair that \<open>Await\<close> returned and on the variables \<open>s\<close>
  that the goroutines share. While its \<open>Await\<close> is blocked nothing happens. The
  combinators take the order in which their goroutines run (\<open>order\<close>, a list of input
  indices). A goroutine is one step of that order: its body runs under a mutex or a
  \<open>sync.Once\<close>, or writes a slot of its own, so the bodies take effect one after another;
  and where the inputs are different promises the \<open>Await\<close> of one goroutine neither
  changes nor sees what another one awaits, so that taking an \<open>Await\<close> together with the
  body that follows it leaves no run out.
\<close>

definition goroutine ::
  "'a \<Rightarrow> pick \<Rightarrow> ctx \<Rightarrow> nat \<Rightarrow> ('a \<times> error option \<Rightarrow> 's \<Rightarrow> 's) \<Rightarrow> 'a heap \<times> 's \<Rightarrow> 'a heap \<times> 's" where
  "goroutine zero pk ctx p body hs =
     (case Await zero pk ctx (fst hs p) of
        None \<Rightarrow> hs
      | Some (r, p') \<Rightarrow> ((fst hs)(p := p'), body r (snd hs)))"

subsection \<open>All\<close>






subsection \<open>AllSettled\<close>











subsection \<open>Any\<close>





text \<open>
  What a goroutine that awaits the promise \<open>p\<close> does to the shared variables: the second
  component of \<open>goroutine\<close>, for the promise found at its address.
\<close>

definition after_Await ::
  "'a \<Rightarrow> pick \<Rightarrow> ctx \<Rightarrow> 'a Promise \<Rightarrow> ('a \<times> error option \<Rightarrow> 's \<Rightarrow> 's) \<Rightarrow> 's \<Rightarrow> 's" where
  "after_Await zero pk ctx p body s =
     (case Await zero pk ctx p of None \<Rightarrow> s | Some (r, p') \<Rightarrow> body r s)"

section \<open>WorkerPool (pool.go)\<close>

text \<open>
  A task holds what its function does when called and the channel of its promise; the
  channel is shared with the promise, so the task holds the promise's index in the list
  of promises that \<open>Submit\<close> has made (\<open>submitted\<close> below).
\<close>

record 'a task =
  fn :: "('a \<times> error option) call"
  ch :: nat

text \<open>
  \<open>wg\<close> is the counter of the \<open>sync.WaitGroup\<close>: the workers that have not returned.
  The field \<open>done\<close> of the source is \<open>done_chan\<close> here.
\<close>

record 'a WorkerPool =
  taskQueue :: "'a task chan"
  wg :: nat
  done_chan :: "unit chan"
  workers :: nat
  submitted :: "'a Promise list"

definition NewWorkerPool :: "int \<Rightarrow> 'a WorkerPool" where
  "NewWorkerPool numWorkers =
     (let n = (if numWorkers \<le> 0 then 1 else nat numWorkers) in
      \<lparr>taskQueue = make_chan (n * 2), wg = n, done_chan = make_chan 0, workers = n,
       submitted = []\<rparr>)"

text \<open>
  \<open>executeTask\<close>: the deferred function recovers a panic of \<open>t.fn\<close> and sends
  \<open>Result{Err: ErrTaskPanicked}\<close>.
\<close>

definition executeTask :: "'a \<Rightarrow> 'a task \<Rightarrow> 'a WorkerPool \<Rightarrow> 'a WorkerPool outcome" where
  "executeTask zero t p =
     (let result = (case fn t of
                      Returns (val, err) \<Rightarrow> \<lparr>Value = val, Err = err\<rparr>
                    | Panicked \<Rightarrow> \<lparr>Value = zero, Err = Some ErrTaskPanicked\<rparr>)
      in case send (resultChan (submitted p ! ch t)) result of
           Proceeds c \<Rightarrow>
             Proceeds (p\<lparr>submitted := (submitted p)[ch t := (submitted p ! ch t)\<lparr>resultChan := c\<rparr>]\<rparr>)
         | Blocks \<Rightarrow> Blocks
         | Panics \<Rightarrow> Panics)"

text \<open>
  One turn of the loop of \<open>worker\<close>, for a worker that has not returned: the \<open>select\<close>
  between \<open><-p.done\<close> and \<open><-p.taskQueue\<close>. Returning runs the deferred \<open>p.wg.Done()\<close>.
\<close>

definition worker :: "'a \<Rightarrow> pick \<Rightarrow> 'a WorkerPool \<Rightarrow> 'a WorkerPool outcome" where
  "worker zero pk p =
     (if wg p = 0 then Blocks
      else (case select2 pk (can_recv (done_chan p)) (can_recv (taskQueue p)) of
              None \<Rightarrow> Blocks
            | Some FirstCase \<Rightarrow> Proceeds (p\<lparr>wg := wg p - 1\<rparr>)
            | Some SecondCase \<Rightarrow>
                (case recv (taskQueue p) of
                   Proceeds (None, q) \<Rightarrow> Proceeds (p\<lparr>wg := wg p - 1\<rparr>)
                 | Proceeds (Some t, q) \<Rightarrow> executeTask zero t (p\<lparr>taskQueue := q\<rparr>)
                 | Blocks \<Rightarrow> Blocks
                 | Panics \<Rightarrow> Panics)))"

text \<open>
  \<open>Submit\<close> makes the promise and starts a goroutine; \<open>Submit\<close> returns the promise's
  index with the pool, \<open>Submit_go\<close> is the goroutine: the \<open>select\<close> between the send to
  \<open>p.taskQueue\<close> and \<open><-p.done\<close>.
\<close>

definition Submit :: "'a WorkerPool \<Rightarrow> nat \<times> 'a WorkerPool" where
  "Submit p = (length (submitted p), p\<lparr>submitted := submitted p @ [new_Promise]\<rparr>)"

definition Submit_go ::
  "'a \<Rightarrow> pick \<Rightarrow> ('a \<times> error option) call \<Rightarrow> nat \<Rightarrow> 'a WorkerPool \<Rightarrow> 'a WorkerPool outcome" where
  "Submit_go zero pk f promise p =
     (let t = \<lparr>fn = f, ch = promise\<rparr> in
      case select2 pk (can_send (taskQueue p)) (can_recv (done_chan p)) of
        None \<Rightarrow> Blocks
      | Some FirstCase \<Rightarrow>
          (case send (taskQueue p) t of
             Proceeds q \<Rightarrow> Proceeds (p\<lparr>taskQueue := q\<rparr>)
           | Blocks \<Rightarrow> Blocks
           | Panics \<Rightarrow> Panics)
      | Some SecondCase \<Rightarrow>
          (case send (resultChan (submitted p ! promise)) \<lparr>Value = zero, Err = Some ErrPoolClosed\<rparr> of
             Proceeds c \<Rightarrow>
               Proceeds (p\<lparr>submitted := (submitted p)[promise := (submitted p ! promise)\<lparr>resultChan := c\<rparr>]\<rparr>)
           | Blocks \<Rightarrow> Blocks
           | Panics \<Rightarrow> Panics))"

text \<open>The three statements of \<open>Close\<close>, between which the other goroutines run.\<close>

definition Close_done :: "'a WorkerPool \<Rightarrow> 'a WorkerPool outcome" where
  "Close_done p =
     (case close_chan (done_chan p) of
        Proceeds c \<Rightarrow> Proceeds (p\<lparr>done_chan := c\<rparr>)
      | Blocks \<Rightarrow> Blocks
      | Panics \<Rightarrow> Panics)"

definition Close_taskQueue :: "'a WorkerPool \<Rightarrow> 'a WorkerPool outcome" where
  "Close_taskQueue p =
     (case close_chan (taskQueue p) of
        Proceeds c \<Rightarrow> Proceeds (p\<lparr>taskQueue := c\<rparr>)
      | Blocks \<Rightarrow> Blocks
      | Panics \<Rightarrow> Panics)"

definition Close_wait :: "'a WorkerPool \<Rightarrow> 'a WorkerPool outcome" where
  "Close_wait p = (if wg p = 0 then Proceeds p else Blocks)"

text \<open>
  A run of the pool: the steps of its goroutines in the order in which they happen. The
  run ends at the first step that panics; it is \<open>Blocks\<close> when a step of the list cannot
  proceed where it stands, which is then no run of the pool.
\<close>

datatype 'a event =
    Worker pick
  | SubmitCall
  | SubmitGo pick "('a \<times> error option) call" nat
  | CloseDone
  | CloseTaskQueue
  | CloseWait

fun step :: "'a \<Rightarrow> 'a event \<Rightarrow> 'a WorkerPool \<Rightarrow> 'a WorkerPool outcome" where
  "step zero (Worker pk) p = worker zero pk p"
| "step zero SubmitCall p = Proceeds (snd (Submit p))"
| "step zero (SubmitGo pk f promise) p = Submit_go zero pk f promise p"
| "step zero CloseDone p = Close_done p"
| "step zero CloseTaskQueue p = Close_taskQueue p"
| "step zero CloseWait p = Close_wait p"

fun run :: "'a \<Rightarrow> 'a event list \<Rightarrow> 'a WorkerPool \<Rightarrow> 'a WorkerPool outcome" where
  "run zero [] p = Proceeds p"
| "run zero (e # es) p =
     (case step zero e p of
        Proceeds p' \<Rightarrow> run zero es p'
      | Blocks \<Rightarrow> Blocks
      | Panics \<Rightarrow> Panics)"

text \<open>A promise after its one buffered result has been received.\<close>

definition consumed :: "'a Promise \<Rightarrow> 'a Promise" where
  "consumed p = p\<lparr>resultChan := (resultChan p)\<lparr>chan_buf := []\<rparr>\<rparr>"

section \<open>Exactly-once settlement\<close>

lemma new_Promise_code [code]:
  "new_Promise = \<lparr>resultChan = \<lparr>chan_buf = [], chan_cap = 1, chan_closed = False\<rparr>, once = False\<rparr>"
  by (simp add: new_Promise_def make_chan_def)

lemma callback_first: "callback zero c new_Promise = Proceeds (settled (settlement zero c))"
  by (cases c) (simp_all add: resolve_def reject_def send_def new_Promise_def make_chan_def settled_def)

lemma callback_once: "once p \<Longrightarrow> callback zero c p = Proceeds p"
  by (cases c) (simp_all add: resolve_def reject_def)

lemma callbacks_once: "once p \<Longrightarrow> callbacks zero cs p = Proceeds p"
  by (induction cs) (simp_all add: callback_once)

lemma once_settled: "once (settled r)"
  by (simp add: settled_def)

lemma callbacks_first:
  "callbacks zero (c # cs) new_Promise = Proceeds (settled (settlement zero c))"
  by (simp add: callback_first callbacks_once once_settled)

text \<open>
  C5. On a promise made by \<open>NewPromiseWithExecutor\<close>, the first call of \<open>resolve\<close> or
  \<open>reject\<close> settles the promise with its outcome, whatever calls follow; and once
  \<open>p.once\<close> has run, every further call of either callback leaves the promise as it is
  (so also after an \<open>Await\<close> has taken the settlement out of the channel): the promise
  is settled once and the first settlement is not overwritten.
\<close>

theorem executor_settles_exactly_once:
  "NewPromiseWithExecutor zero (Calls (c # cs)) = Proceeds (settled (settlement zero c))
   \<and> NewPromiseWithExecutor zero (Calls (c # cs)) = NewPromiseWithExecutor zero (Calls [c])
   \<and> (once p \<longrightarrow> callbacks zero cs p = Proceeds p)"
  by (simp add: callback_first callbacks_once once_settled)

theorem executor_settles_exactly_once_witness:
  "NewPromiseWithExecutor (0::int) (Calls [Reject (Some (Errorf ''e'')), Resolve 7, Reject None])
     = Proceeds (settled \<lparr>Value = 0, Err = Some (Errorf ''e'')\<rparr>)
   \<and> once (settled \<lparr>Value = 7::int, Err = None\<rparr>)
   \<and> callbacks 0 [Resolve 7, Reject None] (settled \<lparr>Value = 7::int, Err = None\<rparr>)
     = Proceeds (settled \<lparr>Value = 7, Err = None\<rparr>)"
proof -
  have h: "once (settled \<lparr>Value = 7::int, Err = None\<rparr>)"
    by (simp add: settled_def)
  have "settlement (0::int) (Reject (Some (Errorf ''e''))) = \<lparr>Value = 0, Err = Some (Errorf ''e'')\<rparr>"
    by simp
  with h executor_settles_exactly_once
    [of "0::int" "Reject (Some (Errorf ''e''))" "[Resolve 7, Reject None]"
        "settled \<lparr>Value = 7::int, Err = None\<rparr>"]
  show ?thesis by metis
qed


lemma callbacks_new_Promise: "\<exists>p. callbacks zero cs new_Promise = Proceeds p"
  by (cases cs) (simp_all add: callbacks_first del: callbacks.simps(2))

section \<open>Panics\<close>

text \<open>
  C1, as the claim states it, fails: \<open>NewPromise\<close> and \<open>NewPromiseWithExecutor\<close> have no
  \<open>recover\<close>. With a function that panics the goroutine panics, and the promise is not
  settled.
\<close>

theorem NewPromise_panic_escapes:
  "NewPromise (Panicked :: (int \<times> error option) call) = Panics
   \<and> NewPromiseWithExecutor (0::int) (PanicAfter []) = Panics"
  by (simp add: NewPromise_def)

text \<open>
  C1, amended. A panic of a work function run by a worker of a \<open>WorkerPool\<close> is
  recovered in \<open>executeTask\<close> and settles the task's promise with \<open>ErrTaskPanicked\<close>,
  the pool being otherwise unchanged; a panic of the function given to \<open>NewPromise\<close>, or
  of the executor given to \<open>NewPromiseWithExecutor\<close> (whatever callbacks it has called
  before), is not recovered.
\<close>

theorem panic_recovered_in_pool_only:
  "(promise < length (submitted p) \<and> submitted p ! promise = new_Promise \<longrightarrow>
      executeTask zero \<lparr>fn = Panicked, ch = promise\<rparr> p
        = Proceeds (p\<lparr>submitted := (submitted p)
            [promise := new_Promise\<lparr>resultChan :=
               \<lparr>chan_buf = [\<lparr>Value = zero, Err = Some ErrTaskPanicked\<rparr>],
                chan_cap = 1, chan_closed = False\<rparr>\<rparr>]\<rparr>))
   \<and> NewPromise Panicked = Panics
   \<and> NewPromiseWithExecutor zero (PanicAfter cs) = Panics"
proof -
  have "\<exists>q. callbacks zero cs new_Promise = Proceeds q"
    by (rule callbacks_new_Promise)
  then obtain q where "callbacks zero cs new_Promise = Proceeds q" ..
  then show ?thesis
    by (simp add: executeTask_def NewPromise_def send_def new_Promise_def make_chan_def)
qed

theorem panic_recovered_in_pool_only_witness:
  "(0 < length (submitted (snd (Submit (NewWorkerPool 1 :: int WorkerPool))))
    \<and> submitted (snd (Submit (NewWorkerPool 1 :: int WorkerPool))) ! 0 = new_Promise)
   \<and> executeTask 0 \<lparr>fn = Panicked, ch = 0\<rparr> (snd (Submit (NewWorkerPool 1 :: int WorkerPool)))
       = Proceeds ((snd (Submit (NewWorkerPool 1))) \<lparr>submitted :=
           [new_Promise\<lparr>resultChan :=
              \<lparr>chan_buf = [\<lparr>Value = 0, Err = Some ErrTaskPanicked\<rparr>],
               chan_cap = 1, chan_closed = False\<rparr>\<rparr>]\<rparr>)"
proof -
  have h: "0 < length (submitted (snd (Submit (NewWorkerPool 1 :: int WorkerPool))))
    \<and> submitted (snd (Submit (NewWorkerPool 1 :: int WorkerPool))) ! 0 = new_Promise"
    by (simp add: Submit_def NewWorkerPool_def)
  have u: "(submitted (snd (Submit (NewWorkerPool 1 :: int WorkerPool))))[0 := q] = [q]" for q
    by (simp add: Submit_def NewWorkerPool_def)
  from h u panic_recovered_in_pool_only
    [of 0 "snd (Submit (NewWorkerPool 1 :: int WorkerPool))" 0 "[]", THEN conjunct1]
  show ?thesis by simp
qed

section \<open>Submit after Close\<close>

text \<open>
  C2. The pool of \<open>TestWorkerPoolClosed\<close>: one worker, \<open>Close()\<close> runs and returns (the
  first run below ends with \<open>wg.Wait()\<close> passed and the promise of the next \<open>Submit\<close>
  made), then the goroutine of \<open>Submit\<close> reaches its \<open>select\<close>. Both cases can proceed:
  \<open>p.done\<close> is closed, and so is \<open>p.taskQueue\<close>. When the \<open>select\<close> takes the send, it
  panics (second run); only when it takes \<open><-p.done\<close> is the promise settled with
  \<open>ErrPoolClosed\<close> (third run).
\<close>

theorem Submit_after_Close_can_panic:
  "run (0::int) [CloseDone, CloseTaskQueue, Worker FirstCase, CloseWait, SubmitCall]
       (NewWorkerPool 1)
     = Proceeds \<lparr>taskQueue = \<lparr>chan_buf = [], chan_cap = 2, chan_closed = True\<rparr>, wg = 0,
         done_chan = \<lparr>chan_buf = [], chan_cap = 0, chan_closed = True\<rparr>, workers = 1,
         submitted = [new_Promise]\<rparr>
   \<and> run (0::int) [CloseDone, CloseTaskQueue, Worker FirstCase, CloseWait, SubmitCall,
                    SubmitGo FirstCase (Returns (1, None)) 0] (NewWorkerPool 1)
     = Panics
   \<and> run (0::int) [CloseDone, CloseTaskQueue, Worker FirstCase, CloseWait, SubmitCall,
                    SubmitGo SecondCase (Returns (1, None)) 0] (NewWorkerPool 1)
     = Proceeds \<lparr>taskQueue = \<lparr>chan_buf = [], chan_cap = 2, chan_closed = True\<rparr>, wg = 0,
         done_chan = \<lparr>chan_buf = [], chan_cap = 0, chan_closed = True\<rparr>, workers = 1,
         submitted = [new_Promise\<lparr>resultChan :=
           \<lparr>chan_buf = [\<lparr>Value = 0, Err = Some ErrPoolClosed\<rparr>], chan_cap = 1,
            chan_closed = False\<rparr>\<rparr>]\<rparr>"
  by (simp add: NewWorkerPool_def Close_done_def Close_taskQueue_def Close_wait_def worker_def
      Submit_def Submit_go_def close_chan_def make_chan_def select2_def can_recv_def can_send_def
      send_def recv_def new_Promise_def)

section \<open>Close and the queued tasks\<close>

text \<open>
  C3. A pool with one worker; a task is submitted and enters the queue; \<open>Close()\<close> closes
  both channels; the worker's \<open>select\<close> takes \<open><-p.done\<close> and the worker returns;
  \<open>wg.Wait()\<close> passes and \<open>Close()\<close> returns. The task is still in the queue and its
  promise has not been settled (first run). Only when the worker's \<open>select\<close> takes
  \<open><-p.taskQueue\<close> is the task executed before \<open>Close()\<close> returns (second run).
\<close>

theorem Close_can_drop_queued_task:
  "run (0::int) [SubmitCall, SubmitGo FirstCase (Returns (1, None)) 0, CloseDone, CloseTaskQueue,
                 Worker FirstCase, CloseWait] (NewWorkerPool 1)
     = Proceeds \<lparr>taskQueue = \<lparr>chan_buf = [\<lparr>fn = Returns (1, None), ch = 0\<rparr>], chan_cap = 2,
                               chan_closed = True\<rparr>,
         wg = 0, done_chan = \<lparr>chan_buf = [], chan_cap = 0, chan_closed = True\<rparr>, workers = 1,
         submitted = [new_Promise]\<rparr>
   \<and> run (0::int) [SubmitCall, SubmitGo FirstCase (Returns (1, None)) 0, CloseDone, CloseTaskQueue,
                 Worker SecondCase, Worker SecondCase, CloseWait] (NewWorkerPool 1)
     = Proceeds \<lparr>taskQueue = \<lparr>chan_buf = [], chan_cap = 2, chan_closed = True\<rparr>,
         wg = 0, done_chan = \<lparr>chan_buf = [], chan_cap = 0, chan_closed = True\<rparr>, workers = 1,
         submitted = [new_Promise\<lparr>resultChan :=
           \<lparr>chan_buf = [\<lparr>Value = 1, Err = None\<rparr>], chan_cap = 1, chan_closed = False\<rparr>\<rparr>]\<rparr>"
  by (simp add: NewWorkerPool_def Close_done_def Close_taskQueue_def Close_wait_def worker_def
      Submit_def Submit_go_def close_chan_def make_chan_def select2_def can_recv_def can_send_def
      send_def recv_def executeTask_def new_Promise_def)

section \<open>Await\<close>

lemma Await_settlement:
  "chan_buf (resultChan p) = [r] \<Longrightarrow> Await zero pk Background p = Some ((Value r, Err r), consumed p)"
  by (simp add: Await_def Background_def select2_def can_recv_def recv_def consumed_def)


text \<open>
  C4, as the claim states it, fails: with a token that has fired and a promise that has
  settled, both cases of the \<open>select\<close> can proceed, and when it takes the first, \<open>Await\<close>
  returns the settlement.
\<close>

theorem Await_fired_token_can_return_settlement:
  "Await (0::int) FirstCase (Some Canceled) (settled \<lparr>Value = 7, Err = None\<rparr>)
     = Some ((7, None), consumed (settled \<lparr>Value = 7, Err = None\<rparr>))"
  by (simp add: Await_def settled_def select2_def can_recv_def recv_def consumed_def)

text \<open>
  C4, amended. With a token that has already fired, \<open>Await\<close> on a promise that has not
  settled returns the cancellation error at once, the promise untouched; on a promise
  that has settled it returns the settlement or the cancellation error, as the \<open>select\<close>
  picks.
\<close>

theorem Await_cancelled:
  "(chan_buf (resultChan p) = [] \<and> \<not> chan_closed (resultChan p) \<longrightarrow>
      Await zero pk (Some e) p = Some ((zero, Some e), p))
   \<and> (chan_buf (resultChan q) = [r] \<longrightarrow>
      Await zero FirstCase (Some e) q = Some ((Value r, Err r), consumed q)
      \<and> Await zero SecondCase (Some e) q = Some ((zero, Some e), q))"
  by (simp add: Await_def select2_def can_recv_def recv_def consumed_def)

theorem Await_cancelled_witness:
  "(chan_buf (resultChan (new_Promise :: int Promise)) = []
      \<and> \<not> chan_closed (resultChan (new_Promise :: int Promise)))
   \<and> Await (0::int) FirstCase (Some Canceled) new_Promise = Some ((0, Some Canceled), new_Promise)
   \<and> chan_buf (resultChan (settled \<lparr>Value = 7::int, Err = None\<rparr>)) = [\<lparr>Value = 7, Err = None\<rparr>]
   \<and> Await (0::int) FirstCase (Some Canceled) (settled \<lparr>Value = 7, Err = None\<rparr>)
       = Some ((7, None), consumed (settled \<lparr>Value = 7, Err = None\<rparr>))
   \<and> Await (0::int) SecondCase (Some Canceled) (settled \<lparr>Value = 7, Err = None\<rparr>)
       = Some ((0, Some Canceled), settled \<lparr>Value = 7, Err = None\<rparr>)"
proof -
  have h1: "chan_buf (resultChan (new_Promise :: int Promise)) = []
      \<and> \<not> chan_closed (resultChan (new_Promise :: int Promise))"
    by (simp add: new_Promise_def make_chan_def)
  have h2: "chan_buf (resultChan (settled \<lparr>Value = 7::int, Err = None\<rparr>)) = [\<lparr>Value = 7, Err = None\<rparr>]"
    by (simp add: settled_def)
  from h1 h2 Await_cancelled
    [of "new_Promise :: int Promise" "0::int" FirstCase Canceled
        "settled \<lparr>Value = 7::int, Err = None\<rparr>" "\<lparr>Value = 7::int, Err = None\<rparr>"]
  show ?thesis by simp
qed


text \<open>
  C10. \<open>Await\<close> takes the settlement out of the channel. For a promise whose channel holds
  its settlement \<open>r\<close>: an \<open>Await\<close> with a token that never fires returns \<open>r\<close> and leaves
  the channel empty; on the promise so left, an \<open>Await\<close> with a token that never fires
  stays blocked, and one whose token has fired returns the cancellation error and nothing
  else; \<open>Then\<close>, \<open>Map\<close>, \<open>Catch\<close> and \<open>Finally\<close> leave the source in the same emptied
  state; and the callbacks of an executor promise, its \<open>once\<close> used, do not fill the
  channel again.
\<close>

theorem Await_consumes_settlement:
  "chan_buf (resultChan p) = [r] \<and> \<not> chan_closed (resultChan p) \<longrightarrow>
     Await zero pk Background p = Some ((Value r, Err r), consumed p)
   \<and> Await zero pk' Background (consumed p) = None
   \<and> Await zero pk' (Some e) (consumed p) = Some ((zero, Some e), consumed p)
   \<and> snd (Then zero pk f1 p) = consumed p
   \<and> snd (Map zero pk f2 p) = consumed p
   \<and> snd (Catch zero pk f3 p) = consumed p
   \<and> snd (Finally zero pk f4 p) = consumed p
   \<and> (once p \<longrightarrow> callbacks zero cs (consumed p) = Proceeds (consumed p))"
proof (intro impI, elim conjE)
  assume b: "chan_buf (resultChan p) = [r]" and c: "\<not> chan_closed (resultChan p)"
  have a1: "Await zero pk Background p = Some ((Value r, Err r), consumed p)"
    using b by (rule Await_settlement)
  have a2: "Await zero pk' Background (consumed p) = None"
    using c by (simp add: Await_def Background_def select2_def can_recv_def consumed_def)
  have a3: "Await zero pk' (Some e) (consumed p) = Some ((zero, Some e), consumed p)"
    using c by (simp add: Await_def select2_def can_recv_def consumed_def)
  have t: "snd (Then zero pk f1 p) = consumed p"
    by (simp add: Then_def chain_def Then_executor_def a1 split: call.splits)
  have m: "snd (Map zero pk f2 p) = consumed p"
    by (simp add: Map_def chain_def Map_executor_def a1 split: call.splits prod.splits)
  have ca: "snd (Catch zero pk f3 p) = consumed p"
    by (simp add: Catch_def chain_def Catch_executor_def a1 split: call.splits prod.splits option.splits)
  have f: "snd (Finally zero pk f4 p) = consumed p"
    by (simp add: Finally_def chain_def Finally_executor_def a1 split: call.splits)
  have o: "once p \<longrightarrow> callbacks zero cs (consumed p) = Proceeds (consumed p)"
    by (simp add: callbacks_once consumed_def)
  from a1 a2 a3 t m ca f o
  show "Await zero pk Background p = Some ((Value r, Err r), consumed p)
   \<and> Await zero pk' Background (consumed p) = None
   \<and> Await zero pk' (Some e) (consumed p) = Some ((zero, Some e), consumed p)
   \<and> snd (Then zero pk f1 p) = consumed p
   \<and> snd (Map zero pk f2 p) = consumed p
   \<and> snd (Catch zero pk f3 p) = consumed p
   \<and> snd (Finally zero pk f4 p) = consumed p
   \<and> (once p \<longrightarrow> callbacks zero cs (consumed p) = Proceeds (consumed p))"
    by blast
qed

theorem Await_consumes_settlement_witness:
  "(chan_buf (resultChan (settled \<lparr>Value = 7::int, Err = None\<rparr>)) = [\<lparr>Value = 7, Err = None\<rparr>]
     \<and> \<not> chan_closed (resultChan (settled \<lparr>Value = 7::int, Err = None\<rparr>))
     \<and> once (settled \<lparr>Value = 7::int, Err = None\<rparr>))
   \<and> Await (0::int) FirstCase Background (settled \<lparr>Value = 7, Err = None\<rparr>)
       = Some ((7, None), consumed (settled \<lparr>Value = 7, Err = None\<rparr>))
   \<and> Await (0::int) FirstCase Background (consumed (settled \<lparr>Value = 7, Err = None\<rparr>)) = None
   \<and> Await (0::int) FirstCase (Some DeadlineExceeded) (consumed (settled \<lparr>Value = 7, Err = None\<rparr>))
       = Some ((0, Some DeadlineExceeded), consumed (settled \<lparr>Value = 7, Err = None\<rparr>))
   \<and> snd (Then (0::int) FirstCase (\<lambda>v. Returns None) (settled \<lparr>Value = 7, Err = None\<rparr>))
       = consumed (settled \<lparr>Value = 7, Err = None\<rparr>)
   \<and> callbacks (0::int) [Resolve 9] (consumed (settled \<lparr>Value = 7, Err = None\<rparr>))
       = Proceeds (consumed (settled \<lparr>Value = 7, Err = None\<rparr>))"
proof -
  have h: "chan_buf (resultChan (settled \<lparr>Value = 7::int, Err = None\<rparr>)) = [\<lparr>Value = 7, Err = None\<rparr>]
     \<and> \<not> chan_closed (resultChan (settled \<lparr>Value = 7::int, Err = None\<rparr>))"
    and o: "once (settled \<lparr>Value = 7::int, Err = None\<rparr>)"
    by (simp_all add: settled_def)
  from Await_consumes_settlement
    [where p = "settled \<lparr>Value = 7::int, Err = None\<rparr>" and r = "\<lparr>Value = 7::int, Err = None\<rparr>"
       and zero = "0::int" and pk = FirstCase and pk' = FirstCase and e = DeadlineExceeded
       and ?f1.0 = "\<lambda>v. Returns None" and ?f2.0 = "\<lambda>v. Returns (v, None)"
       and ?f3.0 = "\<lambda>e. Returns (0, None)" and ?f4.0 = "Returns ()" and cs = "[Resolve 9]"]
    h o
  show ?thesis by simp
qed

section \<open>Goroutines on different promises\<close>

lemma snd_goroutine:
  "snd (goroutine zero pk ctx p body (h, s)) = after_Await zero pk ctx (h p) body s"
  by (simp add: goroutine_def after_Await_def split: option.splits)




section \<open>All\<close>





















section \<open>AllSettled\<close>












section \<open>Any\<close>















section \<open>Sequence\<close>








end
